theory Spec2Isabelle
  imports Main
begin

section \<open>Data model\<close>

text \<open>
  The TypeScript classes \<open>Conversations\<close> (conversation listing and streaming) and
  \<open>Group\<close> (\<open>lib/Group.ts\<close>), and the Kotlin \<open>GroupWrapper\<close>, embedded as HOL
  functions. The native module (\<open>XMTPModule\<close> / \<open>XMTP\<close>) is outside the repository:
  every call to it is recorded in a trace, and what it answers is an argument of the
  function that awaits it. A rejected promise or a \<open>throw\<close> is the \<open>Inl\<close> of a sum.
\<close>

datatype js_error = Error string | TypeError string | ReferenceError string

datatype EventTypes =
    Conversation | Group | ConversationV3 | ConversationContainer
  | Message | AllGroupMessage | AllConversationMessages | ConversationMessage

datatype ConversationVersion = DIRECT | GROUP | DM

datatype ConsentState = ALLOWED | DENIED | UNKNOWN

text \<open>\<open>DecodedMessage\<close>: only \<open>id\<close> is read by the code below.\<close>

record DecodedMessage =
  msg_id :: string
  msg_fallback :: string

text \<open>\<open>ConversationContainer\<close> / \<open>ConversationParams\<close>: \<open>topic\<close> and \<open>version\<close> are read.\<close>

record ConversationParams =
  conv_id :: string
  conv_topic :: string
  conv_version :: ConversationVersion

text \<open>\<open>GroupParams\<close> of \<open>Group.ts\<close>.\<close>

record GroupParams =
  gp_id :: string
  gp_createdAt :: int
  gp_topic :: string
  gp_name :: string
  gp_isActive :: bool
  gp_addedByInboxId :: string
  gp_imageUrlSquare :: string
  gp_description :: string
  gp_consentState :: ConsentState
  gp_lastMessage :: "DecodedMessage option"

text \<open>
  What a stream hands to the application callback: \<open>new Group(..)\<close> of a group payload or
  of a conversation container, \<open>new Dm(..)\<close>, \<open>DecodedMessage.fromObject(..)\<close>. There
  is no case for \<open>new Conversation(..)\<close>: the file imports \<open>ConversationVersion\<close> and
  \<open>ConversationContainer\<close> only, so that expression throws before anything is handed on.
\<close>

datatype entity =
    NewGroup GroupParams
  | NewGroupOf ConversationParams
  | NewDm ConversationParams
  | FromObject DecodedMessage

text \<open>
  An application callback: a name, to tell two callbacks apart in the trace, and the
  outcome of the promise it returns for each argument. Callbacks are taken not to touch
  the \<open>Conversations\<close> instance themselves.
\<close>

datatype callback = Callback (cb_id: nat) (cb_run: "entity \<Rightarrow> js_error + unit")

text \<open>The payloads the native side emits, one shape for each event type.\<close>

datatype event =
    ConversationEvent string ConversationParams
  | GroupEvent string GroupParams
  | ConversationV3Event string ConversationParams
  | ConversationContainerEvent string ConversationParams
  | MessageEvent string DecodedMessage
  | AllGroupMessageEvent string DecodedMessage
  | AllConversationMessagesEvent string DecodedMessage
  | ConversationMessageEvent string DecodedMessage string

fun event_type :: "event \<Rightarrow> EventTypes" where
  "event_type (ConversationEvent _ _) = Conversation"
| "event_type (GroupEvent _ _) = Group"
| "event_type (ConversationV3Event _ _) = ConversationV3"
| "event_type (ConversationContainerEvent _ _) = ConversationContainer"
| "event_type (MessageEvent _ _) = Message"
| "event_type (AllGroupMessageEvent _ _) = AllGroupMessage"
| "event_type (AllConversationMessagesEvent _ _) = AllConversationMessages"
| "event_type (ConversationMessageEvent _ _ _) = ConversationMessage"

text \<open>The inbox id (installation id for \<open>ConversationMessage\<close>) an event is addressed to.\<close>

fun event_client :: "event \<Rightarrow> string" where
  "event_client (ConversationEvent i _) = i"
| "event_client (GroupEvent i _) = i"
| "event_client (ConversationV3Event i _) = i"
| "event_client (ConversationContainerEvent i _) = i"
| "event_client (MessageEvent i _) = i"
| "event_client (AllGroupMessageEvent i _) = i"
| "event_client (AllConversationMessagesEvent i _) = i"
| "event_client (ConversationMessageEvent i _ _) = i"

text \<open>The listener closures, one constructor for each arrow function passed to
  \<open>emitter.addListener\<close>, holding what the closure captures besides \<open>this\<close>.\<close>

datatype handler =
    StreamGroupsHandler callback
  | StreamConversationsHandler callback
  | StreamHandler callback
  | StreamAllHandler callback
  | StreamAllMessagesHandler callback
  | StreamAllGroupMessagesHandler callback
  | StreamAllConversationMessagesHandler callback
  | GroupMessagesHandler string string callback

type_synonym GroupOptions = "(string \<times> bool) list"
type_synonym ConversationOrder = string

datatype content = StringContent string | ObjectContent "(string \<times> string) list"

datatype codec = Codec string

datatype gateway_call =
    SubscribeToConversations string
  | UnsubscribeFromConversations string
  | SubscribeToGroups string
  | UnsubscribeFromGroups string
  | SubscribeToV3Conversations string
  | UnsubscribeFromV3Conversations string
  | SubscribeToAll string
  | SubscribeToAllMessages string bool
  | UnsubscribeFromAllMessages string
  | SubscribeToAllGroupMessages string
  | UnsubscribeFromAllGroupMessages string
  | SubscribeToAllConversationMessages string
  | UnsubscribeFromAllConversationMessages string
  | ListGroups string "GroupOptions option" "ConversationOrder option" "nat option"
  | ListAll string
  | ListV3Conversations string "GroupOptions option" "ConversationOrder option" "nat option"
  | SendMessage string string content
  | SendWithContentType string string content codec
  | PrepareMessage string string content
  | PrepareMessageWithContentType string string content codec
  | SubscribeToMessages string string
  | UnsubscribeFromMessages string string
  | ConversationConsentState string string
  | UpdateConversationConsent string string ConsentState

text \<open>Everything observable from outside, in the order it happens.\<close>

datatype effect =
    GatewayCall gateway_call
  | CallbackInvoked nat entity
  | ListenerRemoved nat
  | ListenerRejected nat js_error
  | ConsoleInfo string

text \<open>
  The state: the fields of the \<open>Conversations\<close> instance (\<open>client.inboxId\<close>, \<open>known\<close>,
  \<open>subscriptions\<close>), the listeners registered with \<open>XMTPModule.emitter\<close>, and the trace.
  A subscription object is the number of its listener.

  The class declares and initialises \<open>client\<close> and \<open>subscriptions\<close> only. \<open>this.known\<close>
  is indexed by the methods but never declared or assigned, so on an instance as
  constructed it is \<open>undefined\<close>: that is \<open>None\<close>. \<open>Some f\<close> stands for an instance whose
  field holds an object, put there from outside the class; \<open>f k\<close> is then the truthiness
  of \<open>this.known[k]\<close>, inherited properties included.
\<close>

record state =
  inboxId :: string
  known :: "(string \<Rightarrow> bool) option"
  subscriptions :: "EventTypes \<rightharpoonup> nat"
  listeners :: "(nat \<times> EventTypes \<times> handler) list"
  next_listener :: nat
  trace :: "effect list"

section \<open>The emitter and the native module\<close>

definition gateway :: "gateway_call \<Rightarrow> state \<Rightarrow> state" where
  "gateway c st = st\<lparr>trace := trace st @ [GatewayCall c]\<rparr>"

text \<open>\<open>emitter.addListener(type, listener)\<close>: registers after the listeners already there.\<close>

definition addListener :: "EventTypes \<Rightarrow> handler \<Rightarrow> state \<Rightarrow> nat \<times> state" where
  "addListener ty h st =
     (next_listener st,
      st\<lparr>listeners := listeners st @ [(next_listener st, ty, h)],
         next_listener := Suc (next_listener st)\<rparr>)"

text \<open>\<open>subscription.remove()\<close>.\<close>

definition remove_listener :: "nat \<Rightarrow> state \<Rightarrow> state" where
  "remove_listener sub st =
     st\<lparr>listeners := filter (\<lambda>(i, ty, h). i \<noteq> sub) (listeners st),
        trace := trace st @ [ListenerRemoved sub]\<rparr>"

text \<open>\<open>await callback(x)\<close>: the call starts at once; the outcome is the callback's promise.\<close>

definition invoke :: "callback \<Rightarrow> entity \<Rightarrow> state \<Rightarrow> (js_error + unit) \<times> state" where
  "invoke cb x st = (cb_run cb x, st\<lparr>trace := trace st @ [CallbackInvoked (cb_id cb) x]\<rparr>)"

text \<open>
  Indexing \<open>this.known\<close>. On \<open>undefined\<close> both the read and the assignment throw a
  \<open>TypeError\<close> (the wording of its message depends on the engine). On an object the read
  gives the truthiness of the property and the assignment makes it read \<open>true\<close>.
\<close>

definition known_undefined :: js_error where
  "known_undefined = TypeError ''this.known is undefined''"

definition read_known :: "state \<Rightarrow> string \<Rightarrow> js_error + bool" where
  "read_known st k = (case known st of None \<Rightarrow> Inl known_undefined | Some f \<Rightarrow> Inr (f k))"

definition write_known :: "string \<Rightarrow> state \<Rightarrow> js_error + state" where
  "write_known k st =
     (case known st of
        None \<Rightarrow> Inl known_undefined
      | Some f \<Rightarrow> Inr (st\<lparr>known := Some (f(k := True))\<rparr>))"

text \<open>\<open>new Conversation(..)\<close>: the name is bound nowhere in the file.\<close>

definition Conversation_unbound :: js_error where
  "Conversation_unbound = ReferenceError ''Conversation is not defined''"

section \<open>The listeners of \<open>Conversations\<close>\<close>

text \<open>
  Each listener is an \<open>async\<close> arrow function: a \<open>throw\<close> inside it is the rejection
  of the promise it returns, with the state as it was when the statement threw. The
  argument of \<open>callback(..)\<close> is evaluated before the call, so where it throws the
  callback is not called.
\<close>

definition streamGroups_listener ::
    "callback \<Rightarrow> string \<Rightarrow> GroupParams \<Rightarrow> state \<Rightarrow> (js_error + unit) \<times> state" where
  "streamGroups_listener cb inbox grp st =
     (if inboxId st \<noteq> inbox then (Inr (), st)
      else case write_known (gp_id grp) st of
             Inl err \<Rightarrow> (Inl err, st)
           | Inr st1 \<Rightarrow> invoke cb (NewGroup grp) st1)"

definition streamConversations_listener ::
    "callback \<Rightarrow> string \<Rightarrow> ConversationParams \<Rightarrow> state \<Rightarrow> (js_error + unit) \<times> state" where
  "streamConversations_listener cb inbox c st =
     (if inbox \<noteq> inboxId st then (Inr (), st)
      else case write_known (conv_topic c) st of
             Inl err \<Rightarrow> (Inl err, st)
           | Inr st1 \<Rightarrow>
               if conv_version c = GROUP then invoke cb (NewGroupOf c) st1
               else if conv_version c = DM then invoke cb (NewDm c) st1
               else (Inr (), st1))"

definition stream_listener ::
    "callback \<Rightarrow> string \<Rightarrow> ConversationParams \<Rightarrow> state \<Rightarrow> (js_error + unit) \<times> state" where
  "stream_listener cb inbox c st =
     (if inbox \<noteq> inboxId st then (Inr (), st)
      else case read_known st (conv_topic c) of
             Inl err \<Rightarrow> (Inl err, st)
           | Inr True \<Rightarrow> (Inr (), st)
           | Inr False \<Rightarrow>
               (case write_known (conv_topic c) st of
                  Inl err \<Rightarrow> (Inl err, st)
                | Inr st1 \<Rightarrow> (Inl Conversation_unbound, st1)))"

definition streamAll_listener ::
    "callback \<Rightarrow> string \<Rightarrow> ConversationParams \<Rightarrow> state \<Rightarrow> (js_error + unit) \<times> state" where
  "streamAll_listener cb inbox c st =
     (if inbox \<noteq> inboxId st then (Inr (), st)
      else case read_known st (conv_topic c) of
             Inl err \<Rightarrow> (Inl err, st)
           | Inr True \<Rightarrow> (Inr (), st)
           | Inr False \<Rightarrow>
               (case write_known (conv_topic c) st of
                  Inl err \<Rightarrow> (Inl err, st)
                | Inr st1 \<Rightarrow>
                    if conv_version c = GROUP then invoke cb (NewGroupOf c) st1
                    else (Inl Conversation_unbound, st1)))"

definition streamAllMessages_listener ::
    "callback \<Rightarrow> string \<Rightarrow> DecodedMessage \<Rightarrow> state \<Rightarrow> (js_error + unit) \<times> state" where
  "streamAllMessages_listener cb inbox m st =
     (if inbox \<noteq> inboxId st then (Inr (), st)
      else case read_known st (msg_id m) of
             Inl err \<Rightarrow> (Inl err, st)
           | Inr True \<Rightarrow> (Inr (), st)
           | Inr False \<Rightarrow>
               (case write_known (msg_id m) st of
                  Inl err \<Rightarrow> (Inl err, st)
                | Inr st1 \<Rightarrow> invoke cb (FromObject m) st1))"

definition streamAllGroupMessages_listener ::
    "callback \<Rightarrow> string \<Rightarrow> DecodedMessage \<Rightarrow> state \<Rightarrow> (js_error + unit) \<times> state" where
  "streamAllGroupMessages_listener cb inbox m st =
     (if inbox \<noteq> inboxId st then (Inr (), st)
      else case read_known st (msg_id m) of
             Inl err \<Rightarrow> (Inl err, st)
           | Inr True \<Rightarrow> (Inr (), st)
           | Inr False \<Rightarrow>
               (case write_known (msg_id m) st of
                  Inl err \<Rightarrow> (Inl err, st)
                | Inr st1 \<Rightarrow> invoke cb (FromObject m) st1))"

definition streamAllConversationMessages_listener ::
    "callback \<Rightarrow> string \<Rightarrow> DecodedMessage \<Rightarrow> state \<Rightarrow> (js_error + unit) \<times> state" where
  "streamAllConversationMessages_listener cb inbox m st =
     (if inbox \<noteq> inboxId st then (Inr (), st)
      else case read_known st (msg_id m) of
             Inl err \<Rightarrow> (Inl err, st)
           | Inr True \<Rightarrow> (Inr (), st)
           | Inr False \<Rightarrow>
               (case write_known (msg_id m) st of
                  Inl err \<Rightarrow> (Inl err, st)
                | Inr st1 \<Rightarrow> invoke cb (FromObject m) st1))"

text \<open>The listener of \<open>Group.streamMessages\<close>; it captures the group's installation id and id.\<close>

definition streamMessages_listener ::
    "string \<Rightarrow> string \<Rightarrow> callback \<Rightarrow> string \<Rightarrow> DecodedMessage \<Rightarrow> string \<Rightarrow> state
      \<Rightarrow> (js_error + unit) \<times> state" where
  "streamMessages_listener clientInstallationId gid cb installationId m conversationId st =
     (if installationId \<noteq> clientInstallationId then (Inr (), st)
      else if conversationId \<noteq> gid then (Inr (), st)
      else invoke cb (FromObject m) st)"

text \<open>
  Calling a registered listener with an event. Each listener is registered under the one
  event type whose payload it destructures; the last equation covers the pairs that
  \<open>emit\<close> below never forms.
\<close>

fun run_handler :: "handler \<Rightarrow> event \<Rightarrow> state \<Rightarrow> (js_error + unit) \<times> state" where
  "run_handler (StreamGroupsHandler cb) (GroupEvent i g) st = streamGroups_listener cb i g st"
| "run_handler (StreamConversationsHandler cb) (ConversationV3Event i c) st =
     streamConversations_listener cb i c st"
| "run_handler (StreamHandler cb) (ConversationEvent i c) st = stream_listener cb i c st"
| "run_handler (StreamAllHandler cb) (ConversationContainerEvent i c) st =
     streamAll_listener cb i c st"
| "run_handler (StreamAllMessagesHandler cb) (MessageEvent i m) st =
     streamAllMessages_listener cb i m st"
| "run_handler (StreamAllGroupMessagesHandler cb) (AllGroupMessageEvent i m) st =
     streamAllGroupMessages_listener cb i m st"
| "run_handler (StreamAllConversationMessagesHandler cb) (AllConversationMessagesEvent i m) st =
     streamAllConversationMessages_listener cb i m st"
| "run_handler (GroupMessagesHandler inst gid cb) (ConversationMessageEvent i m c) st =
     streamMessages_listener inst gid cb i m c st"
| "run_handler _ _ st = (Inr (), st)"

text \<open>
  \<open>emitter.emit\<close>: the listeners registered for the event's type run in registration
  order. The emitter drops the promise a listener returns; when that promise rejects,
  nothing handles it, which the trace records as \<open>ListenerRejected\<close>.
\<close>

fun dispatch :: "(nat \<times> EventTypes \<times> handler) list \<Rightarrow> event \<Rightarrow> state \<Rightarrow> state" where
  "dispatch [] e st = st"
| "dispatch ((sub, ty, h) # ls) e st =
     (if ty = event_type e then
        (case run_handler h e st of
           (Inl err, st') \<Rightarrow> dispatch ls e (st'\<lparr>trace := trace st' @ [ListenerRejected sub err]\<rparr>)
         | (Inr u, st') \<Rightarrow> dispatch ls e st')
      else dispatch ls e st)"

definition emit :: "event \<Rightarrow> state \<Rightarrow> state" where
  "emit e st = dispatch (listeners st) e st"

section \<open>The methods of \<open>Conversations\<close>\<close>

text \<open>
  The three list methods. The argument \<open>reply\<close> is what the awaited native call
  resolves to, or the error it rejects with; a rejection leaves the method at the
  \<open>await\<close>. \<open>mark_all\<close> is the loop \<open>for (const x of result) this.known[key] = true\<close>,
  which stops at the first assignment that throws.
\<close>

fun mark_all :: "string list \<Rightarrow> state \<Rightarrow> (js_error + unit) \<times> state" where
  "mark_all [] st = (Inr (), st)"
| "mark_all (k # ks) st =
     (case write_known k st of
        Inl err \<Rightarrow> (Inl err, st)
      | Inr st1 \<Rightarrow> mark_all ks st1)"

definition listGroups ::
    "GroupOptions option \<Rightarrow> ConversationOrder option \<Rightarrow> nat option
      \<Rightarrow> js_error + GroupParams list \<Rightarrow> state \<Rightarrow> (js_error + GroupParams list) \<times> state" where
  "listGroups opts order limit reply st =
     (let st1 = gateway (ListGroups (inboxId st) opts order limit) st in
      case reply of
        Inl e \<Rightarrow> (Inl e, st1)
      | Inr result \<Rightarrow>
          (case mark_all (map gp_id result) st1 of
             (Inl err, st2) \<Rightarrow> (Inl err, st2)
           | (Inr u, st2) \<Rightarrow> (Inr result, st2)))"

definition listAll ::
    "js_error + ConversationParams list \<Rightarrow> state
      \<Rightarrow> (js_error + ConversationParams list) \<times> state" where
  "listAll reply st =
     (let st1 = gateway (ListAll (inboxId st)) st in
      case reply of
        Inl e \<Rightarrow> (Inl e, st1)
      | Inr result \<Rightarrow>
          (case mark_all (map conv_topic result) st1 of
             (Inl err, st2) \<Rightarrow> (Inl err, st2)
           | (Inr u, st2) \<Rightarrow> (Inr result, st2)))"


text \<open>The functions that \<open>streamGroups\<close>, \<open>streamConversations\<close>, \<open>streamAll\<close> and
  \<open>Group.streamMessages\<close> return to the caller.\<close>

datatype cancel_handle =
    CancelGroups nat
  | CancelConversations nat
  | CancelAll nat
  | CancelMessages nat string string

definition streamGroups :: "callback \<Rightarrow> state \<Rightarrow> cancel_handle \<times> state" where
  "streamGroups cb st =
     (let st1 = gateway (SubscribeToGroups (inboxId st)) st;
          (groupsSubscription, st2) = addListener Group (StreamGroupsHandler cb) st1
      in (CancelGroups groupsSubscription,
          st2\<lparr>subscriptions := (subscriptions st2)(Group \<mapsto> groupsSubscription)\<rparr>))"

definition streamConversations :: "callback \<Rightarrow> state \<Rightarrow> cancel_handle \<times> state" where
  "streamConversations cb st =
     (let st1 = gateway (SubscribeToV3Conversations (inboxId st)) st;
          (subscription, st2) = addListener ConversationV3 (StreamConversationsHandler cb) st1
      in (CancelConversations subscription, st2))"

definition stream :: "callback \<Rightarrow> state \<Rightarrow> state" where
  "stream cb st =
     (let st1 = gateway (SubscribeToConversations (inboxId st)) st;
          (subscription, st2) = addListener Conversation (StreamHandler cb) st1
      in st2\<lparr>subscriptions := (subscriptions st2)(Conversation \<mapsto> subscription)\<rparr>)"


text \<open>\<open>includeGroups: boolean = false\<close>: \<open>None\<close> is the omitted argument.\<close>

definition streamAllMessages :: "callback \<Rightarrow> bool option \<Rightarrow> state \<Rightarrow> state" where
  "streamAllMessages cb includeGroups_arg st =
     (let includeGroups = (case includeGroups_arg of None \<Rightarrow> False | Some b \<Rightarrow> b);
          st1 = gateway (SubscribeToAllMessages (inboxId st) includeGroups) st;
          (subscription, st2) = addListener Message (StreamAllMessagesHandler cb) st1
      in st2\<lparr>subscriptions := (subscriptions st2)(Message \<mapsto> subscription)\<rparr>)"


definition streamAllConversationMessages :: "callback \<Rightarrow> state \<Rightarrow> state" where
  "streamAllConversationMessages cb st =
     (let st1 = gateway (SubscribeToAllConversationMessages (inboxId st)) st;
          (subscription, st2) =
             addListener AllConversationMessages (StreamAllConversationMessagesHandler cb) st1
      in st2\<lparr>subscriptions := (subscriptions st2)(AllConversationMessages \<mapsto> subscription)\<rparr>)"

text \<open>
  The cancel methods share one shape: remove and forget the stored subscription when
  there is one, then call the native unsubscribe in every case.
\<close>

definition cancel_subscription :: "EventTypes \<Rightarrow> state \<Rightarrow> state" where
  "cancel_subscription ty st =
     (case subscriptions st ty of
        None \<Rightarrow> st
      | Some sub \<Rightarrow> (remove_listener sub st)\<lparr>subscriptions := (subscriptions st)(ty := None)\<rparr>)"

definition cancelStream :: "state \<Rightarrow> state" where
  "cancelStream st =
     (let st1 = cancel_subscription Conversation st
      in gateway (UnsubscribeFromConversations (inboxId st1)) st1)"

definition cancelStreamGroups :: "state \<Rightarrow> state" where
  "cancelStreamGroups st =
     (let st1 = cancel_subscription Group st
      in gateway (UnsubscribeFromGroups (inboxId st1)) st1)"

definition cancelStreamConversations :: "state \<Rightarrow> state" where
  "cancelStreamConversations st =
     (let st1 = cancel_subscription ConversationV3 st
      in gateway (UnsubscribeFromV3Conversations (inboxId st1)) st1)"

definition cancelStreamAllMessages :: "state \<Rightarrow> state" where
  "cancelStreamAllMessages st =
     (let st1 = cancel_subscription Message st
      in gateway (UnsubscribeFromAllMessages (inboxId st1)) st1)"

definition cancelStreamAllGroupMessages :: "state \<Rightarrow> state" where
  "cancelStreamAllGroupMessages st =
     (let st1 = cancel_subscription AllGroupMessage st
      in gateway (UnsubscribeFromAllGroupMessages (inboxId st1)) st1)"

definition cancelStreamAllConversations :: "state \<Rightarrow> state" where
  "cancelStreamAllConversations st =
     (let st1 = cancel_subscription AllConversationMessages st
      in gateway (UnsubscribeFromAllConversationMessages (inboxId st1)) st1)"

text \<open>Calling a returned cancel function. The one of \<open>Group.streamMessages\<close> awaits
  the native unsubscribe, so it takes that call's outcome.\<close>

fun run_cancel :: "cancel_handle \<Rightarrow> js_error + unit \<Rightarrow> state \<Rightarrow> (js_error + unit) \<times> state" where
  "run_cancel (CancelGroups sub) reply st =
     (Inr (), gateway (UnsubscribeFromGroups (inboxId st)) (remove_listener sub st))"
| "run_cancel (CancelConversations sub) reply st =
     (Inr (), gateway (UnsubscribeFromV3Conversations (inboxId st)) (remove_listener sub st))"
| "run_cancel (CancelAll sub) reply st = (Inr (), cancelStream (remove_listener sub st))"
| "run_cancel (CancelMessages sub inst gid) reply st =
     (reply, gateway (UnsubscribeFromMessages inst gid) (remove_listener sub st))"

section \<open>The methods of \<open>Group\<close>\<close>

text \<open>The two fields of a \<open>Group\<close> instance that its methods pass to the native module.\<close>

record GroupInstance =
  clientInstallationId :: string
  grp_id :: string

record ContentTypeId =
  authorityId :: string
  typeId :: string
  versionMajor :: nat
  versionMinor :: nat

record SendOptions =
  contentType :: "ContentTypeId option"

text \<open>A non-negative integer inside a template literal prints in decimal (JavaScript does
  so below \<open>10^21\<close>, for integers it represents exactly; version numbers are far smaller).\<close>

definition digit :: "nat \<Rightarrow> char" where
  "digit d = ''0123456789'' ! d"

fun show_nat :: "nat \<Rightarrow> string" where
  "show_nat n = (if n < 10 then [digit n] else show_nat (n div 10) @ [digit (n mod 10)])"

declare show_nat.simps [simp del]

text \<open>The key under which \<open>Client.codecRegistry\<close> is indexed.\<close>

definition codec_key :: "ContentTypeId \<Rightarrow> string" where
  "codec_key ct =
     authorityId ct @ ''/'' @ typeId ct @ '':'' @ show_nat (versionMajor ct) @ ''.''
       @ show_nat (versionMinor ct)"

text \<open>\<open>new Error(`no codec found for: ${contentType}`)\<close>; the object prints as
  \<open>[object Object]\<close>.\<close>

definition CodecMissing :: js_error where
  "CodecMissing = Error ''no codec found for: [object Object]''"

text \<open>
  \<open>_sendWithJSCodec\<close> and \<open>_prepareWithJSCodec\<close>. \<open>Client.codecRegistry\<close> is declared
  outside the given sources and is the argument \<open>codecRegistry\<close>; \<open>reply\<close> is the outcome
  of the awaited native call.
\<close>

definition sendWithJSCodec ::
    "(string \<rightharpoonup> codec) \<Rightarrow> GroupInstance \<Rightarrow> content \<Rightarrow> ContentTypeId \<Rightarrow> js_error + string
      \<Rightarrow> state \<Rightarrow> (js_error + string) \<times> state" where
  "sendWithJSCodec codecRegistry g c ct reply st =
     (case codecRegistry (codec_key ct) of
        None \<Rightarrow> (Inl CodecMissing, st)
      | Some cdc \<Rightarrow>
          (reply, gateway (SendWithContentType (clientInstallationId g) (grp_id g) c cdc) st))"

definition prepareWithJSCodec ::
    "(string \<rightharpoonup> codec) \<Rightarrow> GroupInstance \<Rightarrow> content \<Rightarrow> ContentTypeId \<Rightarrow> js_error + string
      \<Rightarrow> state \<Rightarrow> (js_error + string) \<times> state" where
  "prepareWithJSCodec codecRegistry g c ct reply st =
     (case codecRegistry (codec_key ct) of
        None \<Rightarrow> (Inl CodecMissing, st)
      | Some cdc \<Rightarrow>
          (reply,
           gateway (PrepareMessageWithContentType (clientInstallationId g) (grp_id g) c cdc) st))"

text \<open>\<open>opts && opts.contentType\<close>.\<close>

definition explicit_contentType :: "SendOptions option \<Rightarrow> ContentTypeId option" where
  "explicit_contentType opts = (case opts of None \<Rightarrow> None | Some opt \<Rightarrow> contentType opt)"

text \<open>\<open>if (typeof content === 'string') content = { text: content }\<close>.\<close>

definition wrap_text :: "content \<Rightarrow> content" where
  "wrap_text c = (case c of StringContent s \<Rightarrow> ObjectContent [(''text'', s)] | _ \<Rightarrow> c)"

definition error_message :: "js_error \<Rightarrow> string" where
  "error_message e = (case e of Error m \<Rightarrow> m | TypeError m \<Rightarrow> m | ReferenceError m \<Rightarrow> m)"

definition send ::
    "(string \<rightharpoonup> codec) \<Rightarrow> GroupInstance \<Rightarrow> content \<Rightarrow> SendOptions option \<Rightarrow> js_error + string
      \<Rightarrow> state \<Rightarrow> (js_error + string) \<times> state" where
  "send codecRegistry g c opts reply st =
     (case explicit_contentType opts of
        Some ct \<Rightarrow> sendWithJSCodec codecRegistry g c ct reply st
      | None \<Rightarrow>
          (let st1 = gateway (SendMessage (clientInstallationId g) (grp_id g) (wrap_text c)) st
           in case reply of
                Inl e \<Rightarrow>
                  (Inl e, st1\<lparr>trace := trace st1 @ [ConsoleInfo (''ERROR in send() '' @ error_message e)]\<rparr>)
              | Inr mid \<Rightarrow> (Inr mid, st1)))"

definition prepareMessage ::
    "(string \<rightharpoonup> codec) \<Rightarrow> GroupInstance \<Rightarrow> content \<Rightarrow> SendOptions option \<Rightarrow> js_error + string
      \<Rightarrow> state \<Rightarrow> (js_error + string) \<times> state" where
  "prepareMessage codecRegistry g c opts reply st =
     (case explicit_contentType opts of
        Some ct \<Rightarrow> prepareWithJSCodec codecRegistry g c ct reply st
      | None \<Rightarrow>
          (let st1 = gateway (PrepareMessage (clientInstallationId g) (grp_id g) (wrap_text c)) st
           in case reply of
                Inl e \<Rightarrow>
                  (Inl e,
                   st1\<lparr>trace := trace st1
                      @ [ConsoleInfo (''ERROR in prepareGroupMessage() '' @ error_message e)]\<rparr>)
              | Inr mid \<Rightarrow> (Inr mid, st1)))"

definition streamMessages ::
    "GroupInstance \<Rightarrow> callback \<Rightarrow> js_error + unit \<Rightarrow> state
      \<Rightarrow> (js_error + cancel_handle) \<times> state" where
  "streamMessages g cb reply st =
     (let st1 = gateway (SubscribeToMessages (clientInstallationId g) (grp_id g)) st in
      case reply of
        Inl e \<Rightarrow> (Inl e, st1)
      | Inr u \<Rightarrow>
          (let (messageSubscription, st2) =
                 addListener ConversationMessage
                   (GroupMessagesHandler (clientInstallationId g) (grp_id g) cb) st1
           in (Inr (CancelMessages messageSubscription (clientInstallationId g) (grp_id g)),
               st2)))"

definition consentState ::
    "GroupInstance \<Rightarrow> js_error + ConsentState \<Rightarrow> state
      \<Rightarrow> (js_error + ConsentState) \<times> state" where
  "consentState g reply st =
     (reply, gateway (ConversationConsentState (clientInstallationId g) (grp_id g)) st)"

definition updateConsent ::
    "GroupInstance \<Rightarrow> ConsentState \<Rightarrow> js_error + unit \<Rightarrow> state
      \<Rightarrow> (js_error + unit) \<times> state" where
  "updateConsent g target reply st =
     (reply, gateway (UpdateConversationConsent (clientInstallationId g) (grp_id g) target) st)"

text \<open>
  \<open>denyGroup\<close> of the sample application's group list item: the caller of
  \<open>updateConsent\<close>. \<open>shown\<close> is the component's \<open>consentState\<close> state variable.
\<close>

definition denyGroup ::
    "GroupInstance \<Rightarrow> js_error + unit \<Rightarrow> js_error + ConsentState \<Rightarrow> ConsentState option
      \<Rightarrow> state \<Rightarrow> (js_error + unit) \<times> ConsentState option \<times> state" where
  "denyGroup g reply_update reply_fetch shown st =
     (case updateConsent g DENIED reply_update st of
        (Inl e, st1) \<Rightarrow> (Inl e, shown, st1)
      | (Inr u, st1) \<Rightarrow>
          (case consentState g reply_fetch st1 of
             (Inl e, st2) \<Rightarrow> (Inl e, shown, st2)
           | (Inr consent, st2) \<Rightarrow> (Inr (), Some consent, st2)))"

section \<open>The Kotlin \<open>GroupWrapper\<close>\<close>

record ConversationParamsWrapper =
  p_isActive :: bool
  p_addedByInboxId :: bool
  p_name :: bool
  p_imageUrlSquare :: bool
  p_description :: bool
  p_consentState :: bool
  p_lastMessage :: bool

text \<open>The constructor's default arguments.\<close>

definition default_params :: ConversationParamsWrapper where
  "default_params =
     \<lparr>p_isActive = True, p_addedByInboxId = True, p_name = True, p_imageUrlSquare = True,
      p_description = True, p_consentState = True, p_lastMessage = False\<rparr>"

text \<open>\<open>conversationParamsFromJson\<close>; the JSON parser is the argument \<open>parse\<close>, giving
  the boolean members of the parsed object.\<close>

definition conversationParamsFromJson ::
    "(string \<Rightarrow> (string \<rightharpoonup> bool)) \<Rightarrow> string \<Rightarrow> ConversationParamsWrapper" where
  "conversationParamsFromJson parse conversationParams =
     (if conversationParams = [] then default_params
      else let jsonOptions = parse conversationParams in
        \<lparr>p_isActive = (case jsonOptions ''isActive'' of Some b \<Rightarrow> b | None \<Rightarrow> True),
         p_addedByInboxId = (case jsonOptions ''addedByInboxId'' of Some b \<Rightarrow> b | None \<Rightarrow> True),
         p_name = (case jsonOptions ''name'' of Some b \<Rightarrow> b | None \<Rightarrow> True),
         p_imageUrlSquare = (case jsonOptions ''imageUrlSquare'' of Some b \<Rightarrow> b | None \<Rightarrow> True),
         p_description = (case jsonOptions ''description'' of Some b \<Rightarrow> b | None \<Rightarrow> True),
         p_consentState = (case jsonOptions ''consentState'' of Some b \<Rightarrow> b | None \<Rightarrow> True),
         p_lastMessage = (case jsonOptions ''lastMessage'' of Some b \<Rightarrow> b | None \<Rightarrow> False)\<rparr>)"

text \<open>What the library's \<open>Group\<close> object answers; \<open>ag_messages\<close> is the list that
  \<open>group.messages\<close> draws from, in the order it returns them.\<close>

record AndroidGroup =
  ag_id :: string
  ag_createdAt :: int
  ag_topic :: string
  ag_isActive :: bool
  ag_addedByInboxId :: string
  ag_name :: string
  ag_imageUrlSquare :: string
  ag_description :: string
  ag_consentState :: ConsentState
  ag_messages :: "DecodedMessage list"

datatype json = JString string | JBool bool | JNumber int | JMessage DecodedMessage

fun consentStateToString :: "ConsentState \<Rightarrow> string" where
  "consentStateToString ALLOWED = ''allowed''"
| "consentStateToString DENIED = ''denied''"
| "consentStateToString UNKNOWN = ''unknown''"

definition firstOrNull :: "'a list \<Rightarrow> 'a option" where
  "firstOrNull xs = (case xs of [] \<Rightarrow> None | x # _ \<Rightarrow> Some x)"

definition put :: "string \<Rightarrow> json \<Rightarrow> (string \<rightharpoonup> json) \<Rightarrow> (string \<rightharpoonup> json)" where
  "put k v m = m(k \<mapsto> v)"

definition encodeToObj ::
    "string \<Rightarrow> AndroidGroup \<Rightarrow> ConversationParamsWrapper \<Rightarrow> (string \<rightharpoonup> json)" where
  "encodeToObj clientAddress grp groupParams =
     (let m1 = put ''clientAddress'' (JString clientAddress) Map.empty;
          m2 = put ''id'' (JString (ag_id grp)) m1;
          m3 = put ''createdAt'' (JNumber (ag_createdAt grp)) m2;
          m4 = put ''version'' (JString ''GROUP'') m3;
          m5 = put ''topic'' (JString (ag_topic grp)) m4;
          m6 = (if p_isActive groupParams then put ''isActive'' (JBool (ag_isActive grp)) m5
                else m5);
          m7 = (if p_addedByInboxId groupParams
                then put ''addedByInboxId'' (JString (ag_addedByInboxId grp)) m6 else m6);
          m8 = (if p_name groupParams then put ''name'' (JString (ag_name grp)) m7 else m7);
          m9 = (if p_imageUrlSquare groupParams
                then put ''imageUrlSquare'' (JString (ag_imageUrlSquare grp)) m8 else m8);
          m10 = (if p_description groupParams
                 then put ''description'' (JString (ag_description grp)) m9 else m9);
          m11 = (if p_consentState groupParams
                 then put ''consentState'' (JString (consentStateToString (ag_consentState grp))) m10
                 else m10)
      in if p_lastMessage groupParams then
           (case firstOrNull (take 1 (ag_messages grp)) of
              None \<Rightarrow> m11
            | Some lastMessage \<Rightarrow> put ''lastMessage'' (JMessage lastMessage) m11)
         else m11)"

section \<open>Vocabulary of the statements\<close>


text \<open>The identity a listener compares an event's against: the installation id captured
  by a \<open>Group\<close> listener, the client's inbox id for the listeners of \<open>Conversations\<close>.\<close>

definition handler_client :: "handler \<Rightarrow> state \<Rightarrow> string" where
  "handler_client h st =
     (case h of GroupMessagesHandler inst gid cb \<Rightarrow> inst | _ \<Rightarrow> inboxId st)"

text \<open>
  The key under which a listener looks its event up in \<open>known\<close> before delivering: the
  topic for \<open>stream\<close> and \<open>streamAll\<close>, the message id for the three all-messages streams.
  The listeners of \<open>streamGroups\<close>, \<open>streamConversations\<close> and \<open>Group.streamMessages\<close>
  look nothing up.
\<close>

fun dedup_key :: "handler \<Rightarrow> event \<Rightarrow> string option" where
  "dedup_key (StreamHandler cb) (ConversationEvent i c) = Some (conv_topic c)"
| "dedup_key (StreamAllHandler cb) (ConversationContainerEvent i c) = Some (conv_topic c)"
| "dedup_key (StreamAllMessagesHandler cb) (MessageEvent i m) = Some (msg_id m)"
| "dedup_key (StreamAllGroupMessagesHandler cb) (AllGroupMessageEvent i m) = Some (msg_id m)"
| "dedup_key (StreamAllConversationMessagesHandler cb) (AllConversationMessagesEvent i m) =
     Some (msg_id m)"
| "dedup_key _ _ = None"

text \<open>\<open>this.known[k]\<close> reads truthy: the field holds an object and the property is set.\<close>

definition is_known :: "state \<Rightarrow> string \<Rightarrow> bool" where
  "is_known st k = (read_known st k = Inr True)"


text \<open>The callbacks invoked along a trace, and the lines written to the console.\<close>

fun invocations :: "effect list \<Rightarrow> nat list" where
  "invocations [] = []"
| "invocations (CallbackInvoked n x # t) = n # invocations t"
| "invocations (_ # t) = invocations t"

fun console_lines :: "effect list \<Rightarrow> string list" where
  "console_lines [] = []"
| "console_lines (ConsoleInfo s # t) = s # console_lines t"
| "console_lines (_ # t) = console_lines t"

subsection \<open>Example values\<close>

text \<open>\<open>new Conversations(client)\<close> for the client with the given inbox id: \<open>known\<close>
  undefined, nothing subscribed, no listener registered.\<close>

definition init :: "string \<Rightarrow> state" where
  "init inbox = \<lparr>inboxId = inbox, known = None, subscriptions = Map.empty, listeners = [],
     next_listener = 0, trace = []\<rparr>"

text \<open>The reads of a fresh \<open>{}\<close>: truthy for the properties every object inherits.\<close>

definition empty_object :: "string \<Rightarrow> bool" where
  "empty_object k = (k \<in> set [''constructor'', ''__proto__'', ''hasOwnProperty'',
     ''isPrototypeOf'', ''propertyIsEnumerable'', ''toLocaleString'', ''toString'', ''valueOf'',
     ''__defineGetter__'', ''__defineSetter__'', ''__lookupGetter__'', ''__lookupSetter__''])"

text \<open>The same instance after \<open>known\<close> has been set to \<open>{}\<close> from outside the class;
  nothing in the class as given does so.\<close>

definition init_with_known :: "string \<Rightarrow> state" where
  "init_with_known inbox = (init inbox)\<lparr>known := Some empty_object\<rparr>"

definition convA :: ConversationParams where
  "convA = \<lparr>conv_id = ''c1'', conv_topic = ''t1'', conv_version = DIRECT\<rparr>"

definition convG :: ConversationParams where
  "convG = \<lparr>conv_id = ''g1'', conv_topic = ''tg'', conv_version = GROUP\<rparr>"

definition msg1 :: DecodedMessage where
  "msg1 = \<lparr>msg_id = ''m1'', msg_fallback = ''hello''\<rparr>"

definition grpG :: GroupParams where
  "grpG = \<lparr>gp_id = ''g1'', gp_createdAt = 0, gp_topic = ''tg'', gp_name = ''friends'',
     gp_isActive = True, gp_addedByInboxId = ''B'', gp_imageUrlSquare = [], gp_description = [],
     gp_consentState = UNKNOWN, gp_lastMessage = None\<rparr>"

definition group1 :: GroupInstance where
  "group1 = \<lparr>clientInstallationId = ''inst'', grp_id = ''g1''\<rparr>"

definition cb_ok :: "nat \<Rightarrow> callback" where
  "cb_ok n = Callback n (\<lambda>x. Inr ())"

definition cb_fail :: "nat \<Rightarrow> callback" where
  "cb_fail n = Callback n (\<lambda>x. Inl (Error ''boom''))"

definition ct_text :: ContentTypeId where
  "ct_text = \<lparr>authorityId = ''xmtp.org'', typeId = ''text'', versionMajor = 1, versionMinor = 0\<rparr>"

definition ct_poll :: ContentTypeId where
  "ct_poll = \<lparr>authorityId = ''example.org'', typeId = ''poll'', versionMajor = 2, versionMinor = 13\<rparr>"

definition registry1 :: "string \<rightharpoonup> codec" where
  "registry1 = [''xmtp.org/text:1.0'' \<mapsto> Codec ''text'']"

definition android1 :: AndroidGroup where
  "android1 = \<lparr>ag_id = ''g1'', ag_createdAt = 1700000000000, ag_topic = ''tg'',
     ag_isActive = True, ag_addedByInboxId = ''B'', ag_name = ''friends'',
     ag_imageUrlSquare = [], ag_description = [], ag_consentState = ALLOWED, ag_messages = []\<rparr>"

section \<open>Basic facts\<close>

lemmas listener_defs =
  streamGroups_listener_def streamConversations_listener_def stream_listener_def
  streamAll_listener_def streamAllMessages_listener_def streamAllGroupMessages_listener_def
  streamAllConversationMessages_listener_def streamMessages_listener_def

lemmas known_defs = read_known_def write_known_def is_known_def

lemma invocations_append: "invocations (t @ u) = invocations t @ invocations u"
  by (induction t rule: invocations.induct) simp_all

lemma console_lines_append: "console_lines (t @ u) = console_lines t @ console_lines u"
  by (induction t rule: console_lines.induct) simp_all



text \<open>On an instance as constructed it throws at the first use of \<open>known\<close>.\<close>

lemma dedup_undefined:
  "dedup_key h e = Some k \<Longrightarrow> event_client e = inboxId st \<Longrightarrow> known st = None
     \<Longrightarrow> run_handler h e st = (Inl known_undefined, st)"
  by (cases h; cases e) (auto simp: listener_defs known_defs)

text \<open>No listener registers or removes a listener, touches \<open>subscriptions\<close> or the inbox
  id, or writes to the console; and a key that reads truthy keeps doing so. The same
  then holds of delivering an event, and of delivering several.\<close>

lemma run_handler_frame:
  "listeners (snd (run_handler h e st)) = listeners st
   \<and> subscriptions (snd (run_handler h e st)) = subscriptions st
   \<and> inboxId (snd (run_handler h e st)) = inboxId st
   \<and> console_lines (trace (snd (run_handler h e st))) = console_lines (trace st)
   \<and> (is_known st k \<longrightarrow> is_known (snd (run_handler h e st)) k)"
  by (cases h; cases e)
     (auto simp: listener_defs known_defs invoke_def console_lines_append
           split: option.splits bool.splits)

lemma dispatch_frame:
  "listeners (dispatch ls e st) = listeners st
   \<and> subscriptions (dispatch ls e st) = subscriptions st
   \<and> inboxId (dispatch ls e st) = inboxId st
   \<and> console_lines (trace (dispatch ls e st)) = console_lines (trace st)
   \<and> (is_known st k \<longrightarrow> is_known (dispatch ls e st) k)"
proof (induction ls arbitrary: st)
  case Nil
  then show ?case by simp
next
  case (Cons l ls)
  obtain sub ty h where l: "l = (sub, ty, h)" by (cases l)
  obtain r st' where r: "run_handler h e st = (r, st')" by (cases "run_handler h e st")
  have f: "listeners st' = listeners st \<and> subscriptions st' = subscriptions st
     \<and> inboxId st' = inboxId st
     \<and> console_lines (trace st') = console_lines (trace st)
     \<and> (is_known st k \<longrightarrow> is_known st' k)"
    using run_handler_frame [of h e st k] r by simp
  show ?case
  proof (cases "ty = event_type e")
    case False
    then show ?thesis using Cons.IH l by simp
  next
    case True
    show ?thesis
    proof (cases r)
      case (Inl err)
      let ?st'' = "st'\<lparr>trace := trace st' @ [ListenerRejected sub err]\<rparr>"
      have "is_known st' k \<longrightarrow> is_known ?st'' k"
        by (simp add: known_defs)
      then show ?thesis
        using True l r f Inl Cons.IH [of ?st'']
        by (simp add: console_lines_append)
    next
      case (Inr u)
      then show ?thesis using True l r f Cons.IH [of st'] by simp
    qed
  qed
qed


text \<open>The list methods that go through \<open>known\<close>: on an instance as constructed a
  non-empty result makes them reject; on an object every key of the result ends up set.\<close>

lemma mark_all_undefined:
  "known st = None \<Longrightarrow> mark_all (k # ks) st = (Inl known_undefined, st)"
  by (simp add: write_known_def)

lemma listAll_undefined:
  "listAll (Inr [convA]) (init ''A'') =
     (Inl known_undefined, (init ''A'')\<lparr>trace := [GatewayCall (ListAll ''A'')]\<rparr>)"
  by (simp add: listAll_def gateway_def init_def write_known_def)

lemma listAll_object:
  "fst (listAll (Inr [convG]) (init_with_known ''A'')) = Inr [convG]
   \<and> is_known (snd (listAll (Inr [convG]) (init_with_known ''A''))) ''tg''"
  by (simp add: listAll_def gateway_def init_with_known_def init_def known_defs convG_def)

text \<open>What one cancel method does, and what a second call of it adds.\<close>

lemma cancel_subscription_effect:
  "cancel_subscription ty st =
     st\<lparr>listeners := (case subscriptions st ty of None \<Rightarrow> listeners st
                        | Some sub \<Rightarrow> filter (\<lambda>(i, ty, h). i \<noteq> sub) (listeners st)),
        subscriptions := (subscriptions st)(ty := None),
        trace := trace st @ (case subscriptions st ty of None \<Rightarrow> []
                             | Some sub \<Rightarrow> [ListenerRemoved sub])\<rparr>"
  by (simp add: cancel_subscription_def remove_listener_def fun_upd_idem split: option.splits)

lemma cancel_subscription_again:
  "cancel_subscription ty (gateway c (cancel_subscription ty st)) =
     gateway c (cancel_subscription ty st)"
  by (simp add: cancel_subscription_def remove_listener_def gateway_def split: option.splits)

lemma cancel_subscription_inboxId:
  "inboxId (cancel_subscription ty st) = inboxId st"
  by (simp add: cancel_subscription_def remove_listener_def split: option.splits)

lemma gateway_inboxId: "inboxId (gateway c st) = inboxId st"
  by (simp add: gateway_def)

lemma cancel_generic:
  assumes "\<And>s. X s = gateway (U (inboxId s)) (cancel_subscription ty s)"
  shows "X st =
     st\<lparr>listeners := (case subscriptions st ty of None \<Rightarrow> listeners st
                        | Some sub \<Rightarrow> filter (\<lambda>(i, ty, h). i \<noteq> sub) (listeners st)),
        subscriptions := (subscriptions st)(ty := None),
        trace := trace st
          @ (case subscriptions st ty of None \<Rightarrow> [] | Some sub \<Rightarrow> [ListenerRemoved sub])
          @ [GatewayCall (U (inboxId st))]\<rparr>
   \<and> X (X st) = (X st)\<lparr>trace := trace (X st) @ [GatewayCall (U (inboxId st))]\<rparr>"
proof -
  have i: "inboxId (X st) = inboxId st"
    by (simp add: assms gateway_inboxId cancel_subscription_inboxId)
  have one: "X st =
     st\<lparr>listeners := (case subscriptions st ty of None \<Rightarrow> listeners st
                        | Some sub \<Rightarrow> filter (\<lambda>(i, ty, h). i \<noteq> sub) (listeners st)),
        subscriptions := (subscriptions st)(ty := None),
        trace := trace st
          @ (case subscriptions st ty of None \<Rightarrow> [] | Some sub \<Rightarrow> [ListenerRemoved sub])
          @ [GatewayCall (U (inboxId st))]\<rparr>"
    by (simp add: assms cancel_subscription_effect gateway_def)
  have "X (X st) = gateway (U (inboxId st)) (cancel_subscription ty (X st))"
    using assms [of "X st"] i by simp
  also have "cancel_subscription ty (X st) = X st"
    using cancel_subscription_again [of ty "U (inboxId st)" st] by (simp add: assms)
  finally have two: "X (X st) = (X st)\<lparr>trace := trace (X st) @ [GatewayCall (U (inboxId st))]\<rparr>"
    by (simp add: gateway_def)
  show ?thesis using one two by blast
qed

text \<open>Reading one key of the map that \<open>encodeToObj\<close> builds.\<close>

lemma put_apply: "put k v m k' = (if k' = k then Some v else m k')"
  by (simp add: put_def)

lemma put_if_apply:
  "(if b then put k v m else m) k' = (if b \<and> k' = k then Some v else m k')"
  by (simp add: put_def)

lemma put_last_apply:
  "(if b then (case firstOrNull (take 1 xs) of None \<Rightarrow> m | Some lm \<Rightarrow> put k (f lm) m) else m) k'
     = (if b \<and> k' = k \<and> xs \<noteq> [] then Some (f (hd xs)) else m k')"
  by (cases xs) (simp_all add: firstOrNull_def put_def)

lemmas encode_unfold = encodeToObj_def Let_def put_last_apply put_if_apply put_apply

lemma encode_isActive:
  "encodeToObj a grp ps ''isActive'' =
     (if p_isActive ps then Some (JBool (ag_isActive grp)) else None)"
  unfolding encode_unfold by simp

lemma encode_addedByInboxId:
  "encodeToObj a grp ps ''addedByInboxId'' =
     (if p_addedByInboxId ps then Some (JString (ag_addedByInboxId grp)) else None)"
  unfolding encode_unfold by simp

lemma encode_name:
  "encodeToObj a grp ps ''name'' = (if p_name ps then Some (JString (ag_name grp)) else None)"
  unfolding encode_unfold by simp

lemma encode_imageUrlSquare:
  "encodeToObj a grp ps ''imageUrlSquare'' =
     (if p_imageUrlSquare ps then Some (JString (ag_imageUrlSquare grp)) else None)"
  unfolding encode_unfold by simp

lemma encode_description:
  "encodeToObj a grp ps ''description'' =
     (if p_description ps then Some (JString (ag_description grp)) else None)"
  unfolding encode_unfold by simp

lemma encode_consentState:
  "encodeToObj a grp ps ''consentState'' =
     (if p_consentState ps then Some (JString (consentStateToString (ag_consentState grp)))
      else None)"
  unfolding encode_unfold by simp

lemma encode_lastMessage:
  "encodeToObj a grp ps ''lastMessage'' =
     (if p_lastMessage ps \<and> ag_messages grp \<noteq> [] then Some (JMessage (hd (ag_messages grp)))
      else None)"
  unfolding encode_unfold by simp

text \<open>Options that name no field select the defaults: every field but \<open>lastMessage\<close>.\<close>

lemma conversationParamsFromJson_defaults:
  "conversationParamsFromJson parse [] = default_params"
  "parse s = Map.empty \<Longrightarrow> conversationParamsFromJson parse s = default_params"
  by (simp_all add: conversationParamsFromJson_def default_params_def)

lemma codec_key_text: "codec_key ct_text = ''xmtp.org/text:1.0''"
  by (simp add: codec_key_def ct_text_def show_nat.simps digit_def)

lemma codec_key_poll: "codec_key ct_poll = ''example.org/poll:2.13''"
  by (simp add: codec_key_def ct_poll_def show_nat.simps digit_def)

section \<open>The claims\<close>

subsection \<open>C1: deduplication and categories\<close>




subsection \<open>C2: listing, then streaming\<close>




subsection \<open>C3: updating consent\<close>

text \<open>
  C3, as the code has it. \<open>updateConsent\<close> makes one call, the mutation, and resolves to
  that call's outcome; it fetches nothing and returns no state. Reading the state back is
  left to the caller: \<open>denyGroup\<close> of the sample application calls \<open>consentState\<close> after
  a successful update and shows what that call returned; after a failed update it fetches
  nothing and keeps what it showed.
\<close>

theorem updateConsent_sends_only_the_mutation:
  "updateConsent g target reply st =
     (reply, st\<lparr>trace := trace st @
        [GatewayCall (UpdateConversationConsent (clientInstallationId g) (grp_id g) target)]\<rparr>)
   \<and> denyGroup g (Inr ()) (Inr c) shown st =
     (Inr (), Some c, st\<lparr>trace := trace st @
        [GatewayCall (UpdateConversationConsent (clientInstallationId g) (grp_id g) DENIED),
         GatewayCall (ConversationConsentState (clientInstallationId g) (grp_id g))]\<rparr>)
   \<and> denyGroup g (Inl err) fetched shown st =
     (Inl err, shown, st\<lparr>trace := trace st @
        [GatewayCall (UpdateConversationConsent (clientInstallationId g) (grp_id g) DENIED)]\<rparr>)"
  by (simp add: updateConsent_def denyGroup_def consentState_def gateway_def)

text \<open>
  C3 as stated fails: a successful \<open>updateConsent\<close> leaves exactly one call in the trace,
  and no fetch of the consent state.
\<close>

theorem updateConsent_refetch_counterexample:
  "updateConsent group1 DENIED (Inr ()) (init ''A'') =
     (Inr (), (init ''A'')\<lparr>trace := [GatewayCall (UpdateConversationConsent ''inst'' ''g1'' DENIED)]\<rparr>)
   \<and> GatewayCall (ConversationConsentState ''inst'' ''g1'')
       \<notin> set (trace (snd (updateConsent group1 DENIED (Inr ()) (init ''A''))))"
  by (simp add: updateConsent_def gateway_def init_def group1_def)

subsection \<open>C4: cancelling twice\<close>

text \<open>
  C4, as the code has it. A cancel method has no failing path. Each call forgets and
  removes the stored subscription when there is one, and in every case then calls the
  native unsubscribe. So the first call makes one unsubscribe call, after removing the
  listener if one was stored; the second call finds nothing stored, removes nothing, and
  makes the unsubscribe call again: two cancels make two unsubscribe calls. Stated for
  each of the six cancel methods: the state after one call, and the state after two.
\<close>

theorem cancel_twice_repeats_unsubscribe:
  "cancelStream st =
     st\<lparr>listeners := (case subscriptions st Conversation of None \<Rightarrow> listeners st
                        | Some sub \<Rightarrow> filter (\<lambda>(i, ty, h). i \<noteq> sub) (listeners st)),
        subscriptions := (subscriptions st)(Conversation := None),
        trace := trace st
          @ (case subscriptions st Conversation of None \<Rightarrow> [] | Some sub \<Rightarrow> [ListenerRemoved sub])
          @ [GatewayCall (UnsubscribeFromConversations (inboxId st))]\<rparr>
   \<and> cancelStream (cancelStream st) =
     (cancelStream st)\<lparr>trace := trace (cancelStream st)
        @ [GatewayCall (UnsubscribeFromConversations (inboxId st))]\<rparr>
   \<and> cancelStreamAllMessages st =
     st\<lparr>listeners := (case subscriptions st Message of None \<Rightarrow> listeners st
                        | Some sub \<Rightarrow> filter (\<lambda>(i, ty, h). i \<noteq> sub) (listeners st)),
        subscriptions := (subscriptions st)(Message := None),
        trace := trace st
          @ (case subscriptions st Message of None \<Rightarrow> [] | Some sub \<Rightarrow> [ListenerRemoved sub])
          @ [GatewayCall (UnsubscribeFromAllMessages (inboxId st))]\<rparr>
   \<and> cancelStreamAllMessages (cancelStreamAllMessages st) =
     (cancelStreamAllMessages st)\<lparr>trace := trace (cancelStreamAllMessages st)
        @ [GatewayCall (UnsubscribeFromAllMessages (inboxId st))]\<rparr>
   \<and> cancelStreamGroups st =
     st\<lparr>listeners := (case subscriptions st Group of None \<Rightarrow> listeners st
                        | Some sub \<Rightarrow> filter (\<lambda>(i, ty, h). i \<noteq> sub) (listeners st)),
        subscriptions := (subscriptions st)(Group := None),
        trace := trace st
          @ (case subscriptions st Group of None \<Rightarrow> [] | Some sub \<Rightarrow> [ListenerRemoved sub])
          @ [GatewayCall (UnsubscribeFromGroups (inboxId st))]\<rparr>
   \<and> cancelStreamGroups (cancelStreamGroups st) =
     (cancelStreamGroups st)\<lparr>trace := trace (cancelStreamGroups st)
        @ [GatewayCall (UnsubscribeFromGroups (inboxId st))]\<rparr>
   \<and> cancelStreamConversations st =
     st\<lparr>listeners := (case subscriptions st ConversationV3 of None \<Rightarrow> listeners st
                        | Some sub \<Rightarrow> filter (\<lambda>(i, ty, h). i \<noteq> sub) (listeners st)),
        subscriptions := (subscriptions st)(ConversationV3 := None),
        trace := trace st
          @ (case subscriptions st ConversationV3 of None \<Rightarrow> []
             | Some sub \<Rightarrow> [ListenerRemoved sub])
          @ [GatewayCall (UnsubscribeFromV3Conversations (inboxId st))]\<rparr>
   \<and> cancelStreamConversations (cancelStreamConversations st) =
     (cancelStreamConversations st)\<lparr>trace := trace (cancelStreamConversations st)
        @ [GatewayCall (UnsubscribeFromV3Conversations (inboxId st))]\<rparr>
   \<and> cancelStreamAllGroupMessages st =
     st\<lparr>listeners := (case subscriptions st AllGroupMessage of None \<Rightarrow> listeners st
                        | Some sub \<Rightarrow> filter (\<lambda>(i, ty, h). i \<noteq> sub) (listeners st)),
        subscriptions := (subscriptions st)(AllGroupMessage := None),
        trace := trace st
          @ (case subscriptions st AllGroupMessage of None \<Rightarrow> []
             | Some sub \<Rightarrow> [ListenerRemoved sub])
          @ [GatewayCall (UnsubscribeFromAllGroupMessages (inboxId st))]\<rparr>
   \<and> cancelStreamAllGroupMessages (cancelStreamAllGroupMessages st) =
     (cancelStreamAllGroupMessages st)\<lparr>trace := trace (cancelStreamAllGroupMessages st)
        @ [GatewayCall (UnsubscribeFromAllGroupMessages (inboxId st))]\<rparr>
   \<and> cancelStreamAllConversations st =
     st\<lparr>listeners := (case subscriptions st AllConversationMessages of None \<Rightarrow> listeners st
                        | Some sub \<Rightarrow> filter (\<lambda>(i, ty, h). i \<noteq> sub) (listeners st)),
        subscriptions := (subscriptions st)(AllConversationMessages := None),
        trace := trace st
          @ (case subscriptions st AllConversationMessages of None \<Rightarrow> []
             | Some sub \<Rightarrow> [ListenerRemoved sub])
          @ [GatewayCall (UnsubscribeFromAllConversationMessages (inboxId st))]\<rparr>
   \<and> cancelStreamAllConversations (cancelStreamAllConversations st) =
     (cancelStreamAllConversations st)\<lparr>trace := trace (cancelStreamAllConversations st)
        @ [GatewayCall (UnsubscribeFromAllConversationMessages (inboxId st))]\<rparr>"
proof -
  have c1: "\<And>s. cancelStream s = gateway (UnsubscribeFromConversations (inboxId s)) (cancel_subscription Conversation s)"
    by (simp add: cancelStream_def Let_def cancel_subscription_inboxId)
  have c2: "\<And>s. cancelStreamAllMessages s = gateway (UnsubscribeFromAllMessages (inboxId s)) (cancel_subscription Message s)"
    by (simp add: cancelStreamAllMessages_def Let_def cancel_subscription_inboxId)
  have c3: "\<And>s. cancelStreamGroups s = gateway (UnsubscribeFromGroups (inboxId s)) (cancel_subscription Group s)"
    by (simp add: cancelStreamGroups_def Let_def cancel_subscription_inboxId)
  have c4: "\<And>s. cancelStreamConversations s = gateway (UnsubscribeFromV3Conversations (inboxId s)) (cancel_subscription ConversationV3 s)"
    by (simp add: cancelStreamConversations_def Let_def cancel_subscription_inboxId)
  have c5: "\<And>s. cancelStreamAllGroupMessages s = gateway (UnsubscribeFromAllGroupMessages (inboxId s)) (cancel_subscription AllGroupMessage s)"
    by (simp add: cancelStreamAllGroupMessages_def Let_def cancel_subscription_inboxId)
  have c6: "\<And>s. cancelStreamAllConversations s = gateway (UnsubscribeFromAllConversationMessages (inboxId s)) (cancel_subscription AllConversationMessages s)"
    by (simp add: cancelStreamAllConversations_def Let_def cancel_subscription_inboxId)
  show ?thesis
    by (intro conjI;
        rule conjunct1 [OF cancel_generic [of cancelStream UnsubscribeFromConversations Conversation, OF c1]]
          conjunct2 [OF cancel_generic [of cancelStream UnsubscribeFromConversations Conversation, OF c1]]
          conjunct1 [OF cancel_generic [of cancelStreamAllMessages UnsubscribeFromAllMessages Message, OF c2]]
          conjunct2 [OF cancel_generic [of cancelStreamAllMessages UnsubscribeFromAllMessages Message, OF c2]]
          conjunct1 [OF cancel_generic [of cancelStreamGroups UnsubscribeFromGroups Group, OF c3]]
          conjunct2 [OF cancel_generic [of cancelStreamGroups UnsubscribeFromGroups Group, OF c3]]
          conjunct1 [OF cancel_generic [of cancelStreamConversations UnsubscribeFromV3Conversations ConversationV3, OF c4]]
          conjunct2 [OF cancel_generic [of cancelStreamConversations UnsubscribeFromV3Conversations ConversationV3, OF c4]]
          conjunct1 [OF cancel_generic [of cancelStreamAllGroupMessages UnsubscribeFromAllGroupMessages AllGroupMessage, OF c5]]
          conjunct2 [OF cancel_generic [of cancelStreamAllGroupMessages UnsubscribeFromAllGroupMessages AllGroupMessage, OF c5]]
          conjunct1 [OF cancel_generic [of cancelStreamAllConversations UnsubscribeFromAllConversationMessages AllConversationMessages, OF c6]]
          conjunct2 [OF cancel_generic [of cancelStreamAllConversations UnsubscribeFromAllConversationMessages AllConversationMessages, OF c6]])
qed

text \<open>
  C4 as stated fails: after \<open>stream\<close>, two calls of \<open>cancelStream\<close> leave two
  unsubscribe calls in the trace (and one removal of the listener).
\<close>

theorem cancel_twice_counterexample:
  "trace (cancelStream (cancelStream (stream (cb_ok 1) (init ''A'')))) =
     [GatewayCall (SubscribeToConversations ''A''), ListenerRemoved 0,
      GatewayCall (UnsubscribeFromConversations ''A''),
      GatewayCall (UnsubscribeFromConversations ''A'')]
   \<and> count_list (trace (cancelStream (cancelStream (stream (cb_ok 1) (init ''A'')))))
        (GatewayCall (UnsubscribeFromConversations ''A'')) = 2"
  by (simp add: stream_def cancelStream_def cancel_subscription_def
        remove_listener_def init_def gateway_def addListener_def)

subsection \<open>C5: starting a stream that is already running\<close>

text \<open>
  C5, as the code has it. A second \<open>stream\<close> is neither refused nor does it cancel the
  first: both listeners stay registered, \<open>subscriptions\<close> keeps only the second, and
  the native subscribe is called twice. Where \<open>known\<close> holds an object, a message event
  on a twice-started \<open>streamAllMessages\<close> is still handed to at most one callback, the
  first, because its listener sets the message id before the second listener reads it;
  \<open>streamGroups\<close> reads nothing, and started twice it hands each group event to both
  callbacks.
\<close>

theorem second_stream_is_added_beside_the_first:
  assumes "listeners st = []"
  shows "listeners (stream cb2 (stream cb1 st)) =
           [(next_listener st, Conversation, StreamHandler cb1),
            (Suc (next_listener st), Conversation, StreamHandler cb2)]
       \<and> subscriptions (stream cb2 (stream cb1 st)) Conversation = Some (Suc (next_listener st))
       \<and> trace (stream cb2 (stream cb1 st)) =
           trace st @ [GatewayCall (SubscribeToConversations (inboxId st)),
                       GatewayCall (SubscribeToConversations (inboxId st))]
       \<and> invocations (trace (emit (MessageEvent (inboxId st) m)
             (streamAllMessages cb2 a2 (streamAllMessages cb1 a1 st)))) =
           invocations (trace st)
             @ (case known st of
                  None \<Rightarrow> []
                | Some f \<Rightarrow> if f (msg_id m) then [] else [cb_id cb1])
       \<and> invocations (trace (emit (GroupEvent (inboxId st) g)
             (snd (streamGroups cb2 (snd (streamGroups cb1 st)))))) =
           invocations (trace st)
             @ (case known st of None \<Rightarrow> [] | Some f \<Rightarrow> [cb_id cb1, cb_id cb2])"
  using assms
  by (simp add: emit_def stream_def streamGroups_def streamAllMessages_def gateway_def
        addListener_def listener_defs invoke_def known_defs invocations_append
        split: option.splits sum.splits)

text \<open>The theorem at an instance as constructed, and at one whose \<open>known\<close> is \<open>{}\<close>.\<close>

theorem second_stream_is_added_beside_the_first_witness:
  "listeners (init ''A'') = []
   \<and> listeners (stream (cb_ok 2) (stream (cb_ok 1) (init ''A''))) =
       [(0, Conversation, StreamHandler (cb_ok 1)), (1, Conversation, StreamHandler (cb_ok 2))]
   \<and> subscriptions (stream (cb_ok 2) (stream (cb_ok 1) (init ''A''))) Conversation = Some 1
   \<and> listeners (init_with_known ''A'') = []
   \<and> invocations (trace (emit (MessageEvent ''A'' msg1)
        (streamAllMessages (cb_ok 2) None (streamAllMessages (cb_ok 1) None
           (init_with_known ''A''))))) = [1]
   \<and> invocations (trace (emit (GroupEvent ''A'' grpG)
        (snd (streamGroups (cb_ok 2) (snd (streamGroups (cb_ok 1) (init_with_known ''A'')))))))
       = [1, 2]"
proof -
  have h: "listeners (init ''A'') = []"
    by (simp add: init_def)
  have i: "inboxId (init ''A'') = ''A'' \<and> next_listener (init ''A'') = 0 \<and> trace (init ''A'') = []"
    by (simp add: init_def)
  have hk: "listeners (init_with_known ''A'') = []"
    by (simp add: init_with_known_def init_def)
  have ik: "inboxId (init_with_known ''A'') = ''A'' \<and> trace (init_with_known ''A'') = []
      \<and> known (init_with_known ''A'') = Some empty_object"
    by (simp add: init_with_known_def init_def)
  have n: "\<not> empty_object (msg_id msg1)"
    by (simp add: empty_object_def msg1_def)
  show ?thesis
    using second_stream_is_added_beside_the_first
            [OF h, of "cb_ok 2" "cb_ok 1" msg1 None None grpG]
          second_stream_is_added_beside_the_first
            [OF hk, of "cb_ok 2" "cb_ok 1" msg1 None None grpG]
          h i hk ik n
    by (simp add: cb_ok_def)
qed

text \<open>
  C5 as stated fails, on an instance as constructed: after two \<open>stream\<close> calls both
  listeners are registered, and \<open>cancelStream\<close> removes only the second; after two
  \<open>streamGroups\<close> calls one group event runs both listeners.
\<close>

theorem subscription_conflict_counterexample:
  "listeners (stream (cb_ok 2) (stream (cb_ok 1) (init ''A''))) =
     [(0, Conversation, StreamHandler (cb_ok 1)), (1, Conversation, StreamHandler (cb_ok 2))]
   \<and> listeners (cancelStream (stream (cb_ok 2) (stream (cb_ok 1) (init ''A'')))) =
     [(0, Conversation, StreamHandler (cb_ok 1))]
   \<and> trace (emit (GroupEvent ''A'' grpG)
        (snd (streamGroups (cb_ok 2) (snd (streamGroups (cb_ok 1) (init ''A''))))))
     = [GatewayCall (SubscribeToGroups ''A''), GatewayCall (SubscribeToGroups ''A''),
        ListenerRejected 0 known_undefined, ListenerRejected 1 known_undefined]"
  by (simp add: emit_def stream_def streamGroups_def cancelStream_def cancel_subscription_def
        remove_listener_def init_def gateway_def addListener_def
        listener_defs invoke_def known_defs cb_ok_def)

subsection \<open>C6: a content type without a codec\<close>

text \<open>
  C6. When \<open>send\<close> or \<open>prepareMessage\<close> is given an explicit content type, the registry
  is looked up first: with no codec under the content type's key the result is the
  missing-codec error and the state, trace included, is untouched; with a codec the one
  native call (\<open>sendWithContentType\<close>, \<open>prepareMessageWithContentType\<close>) is made with it
  and its outcome is the result.
\<close>

theorem missing_codec_fails_before_any_call:
  assumes "explicit_contentType opts = Some ct"
  shows "send codecRegistry g c opts reply st =
           (case codecRegistry (codec_key ct) of
              None \<Rightarrow> (Inl CodecMissing, st)
            | Some cdc \<Rightarrow> (reply, st\<lparr>trace := trace st @
                 [GatewayCall (SendWithContentType (clientInstallationId g) (grp_id g) c cdc)]\<rparr>))
       \<and> prepareMessage codecRegistry g c opts reply st =
           (case codecRegistry (codec_key ct) of
              None \<Rightarrow> (Inl CodecMissing, st)
            | Some cdc \<Rightarrow> (reply, st\<lparr>trace := trace st @
                 [GatewayCall (PrepareMessageWithContentType (clientInstallationId g) (grp_id g)
                    c cdc)]\<rparr>))"
  using assms
  by (simp add: send_def prepareMessage_def sendWithJSCodec_def prepareWithJSCodec_def
        gateway_def split: option.splits)

text \<open>The theorem at a registry holding the text codec only: a poll is refused with the
  trace still empty, a text is sent.\<close>

theorem missing_codec_fails_before_any_call_witness:
  "explicit_contentType (Some \<lparr>contentType = Some ct_poll\<rparr>) = Some ct_poll
   \<and> send registry1 group1 (StringContent ''hi'') (Some \<lparr>contentType = Some ct_poll\<rparr>)
        (Inr ''id1'') (init ''A'') = (Inl CodecMissing, init ''A'')
   \<and> trace (init ''A'') = []
   \<and> explicit_contentType (Some \<lparr>contentType = Some ct_text\<rparr>) = Some ct_text
   \<and> send registry1 group1 (StringContent ''hi'') (Some \<lparr>contentType = Some ct_text\<rparr>)
        (Inr ''id1'') (init ''A'') =
       (Inr ''id1'', (init ''A'')\<lparr>trace :=
          [GatewayCall (SendWithContentType ''inst'' ''g1'' (StringContent ''hi'') (Codec ''text''))]\<rparr>)"
proof -
  have p: "explicit_contentType (Some \<lparr>contentType = Some ct_poll\<rparr>) = Some ct_poll"
    by (simp add: explicit_contentType_def)
  have t: "explicit_contentType (Some \<lparr>contentType = Some ct_text\<rparr>) = Some ct_text"
    by (simp add: explicit_contentType_def)
  have e: "trace (init ''A'') = []"
    by (simp add: init_def)
  show ?thesis
    using missing_codec_fails_before_any_call
            [OF p, of registry1 group1 "StringContent ''hi''" "Inr ''id1''" "init ''A''"]
          missing_codec_fails_before_any_call
            [OF t, of registry1 group1 "StringContent ''hi''" "Inr ''id1''" "init ''A''"]
          p t e
    by (simp add: codec_key_text codec_key_poll registry1_def group1_def)
qed

subsection \<open>C7: a callback that fails\<close>

text \<open>
  C7, as the code has it. No listener catches or logs. The listener of
  \<open>Group.streamMessages\<close>, and the one of \<open>streamAllMessages\<close> where \<open>known\<close> holds an
  object, end with the outcome of the callback they called, so a rejection of the
  callback is the rejection of the listener's own promise; and delivering an event writes
  nothing to the console. The stream goes on all the same: delivering an event, whatever
  the callbacks do, leaves every listener registered and \<open>subscriptions\<close> as it was.
\<close>

theorem callback_failure_is_not_caught_and_stream_goes_on:
  "streamMessages_listener inst gid cb inst m gid st =
       (cb_run cb (FromObject m),
        st\<lparr>trace := trace st @ [CallbackInvoked (cb_id cb) (FromObject m)]\<rparr>)
   \<and> streamAllMessages_listener cb (inboxId st) m st =
       (case known st of
          None \<Rightarrow> (Inl known_undefined, st)
        | Some f \<Rightarrow>
            if f (msg_id m) then (Inr (), st)
            else (cb_run cb (FromObject m),
                  st\<lparr>known := Some (f(msg_id m := True)),
                     trace := trace st @ [CallbackInvoked (cb_id cb) (FromObject m)]\<rparr>))
   \<and> console_lines (trace (emit e st)) = console_lines (trace st)
   \<and> listeners (emit e st) = listeners st
   \<and> subscriptions (emit e st) = subscriptions st"
  using dispatch_frame [of "listeners st" e st]
  by (simp add: emit_def streamAllMessages_listener_def streamMessages_listener_def invoke_def
        known_defs split: option.splits)

text \<open>
  C7 as stated fails: with a callback that rejects, the listener of \<open>Group.streamMessages\<close>
  rejects with the same error, nothing handles it and nothing is logged. (A second message
  is still delivered.)
\<close>

theorem callback_failure_counterexample:
  "fst (run_handler (GroupMessagesHandler ''inst'' ''g1'' (cb_fail 1))
          (ConversationMessageEvent ''inst'' msg1 ''g1'') (init ''A''))
     = Inl (Error ''boom'')
   \<and> trace (emit (ConversationMessageEvent ''inst'' (msg1\<lparr>msg_id := ''m2''\<rparr>) ''g1'')
        (emit (ConversationMessageEvent ''inst'' msg1 ''g1'')
           (snd (streamMessages group1 (cb_fail 1) (Inr ()) (init ''A'')))))
     = [GatewayCall (SubscribeToMessages ''inst'' ''g1''),
        CallbackInvoked 1 (FromObject msg1), ListenerRejected 0 (Error ''boom''),
        CallbackInvoked 1 (FromObject (msg1\<lparr>msg_id := ''m2''\<rparr>)),
        ListenerRejected 0 (Error ''boom'')]
   \<and> console_lines (trace (emit (ConversationMessageEvent ''inst'' msg1 ''g1'')
        (snd (streamMessages group1 (cb_fail 1) (Inr ()) (init ''A''))))) = []"
  by (simp add: emit_def streamMessages_def init_def gateway_def addListener_def
        listener_defs invoke_def cb_fail_def msg1_def group1_def)

subsection \<open>C8: events of another client\<close>

text \<open>
  C8. A listener handed an event whose inbox id (installation id, for the listener of
  \<open>Group.streamMessages\<close>) is not its own client's returns at once: the state is the
  same afterwards, so nothing was marked known and no callback was invoked.
\<close>

theorem other_clients_event_is_ignored:
  "event_client e \<noteq> handler_client h st \<Longrightarrow> run_handler h e st = (Inr (), st)"
  by (cases h; cases e) (auto simp: handler_client_def listener_defs)

theorem other_clients_event_is_ignored_witness:
  "event_client (MessageEvent ''B'' msg1) \<noteq> handler_client (StreamAllMessagesHandler (cb_ok 1)) (init ''A'')
   \<and> run_handler (StreamAllMessagesHandler (cb_ok 1)) (MessageEvent ''B'' msg1) (init ''A'')
       = (Inr (), init ''A'')
   \<and> event_client (ConversationMessageEvent ''other'' msg1 ''g1'')
       \<noteq> handler_client (GroupMessagesHandler ''inst'' ''g1'' (cb_ok 2)) (init ''A'')
   \<and> run_handler (GroupMessagesHandler ''inst'' ''g1'' (cb_ok 2))
        (ConversationMessageEvent ''other'' msg1 ''g1'') (init ''A'') = (Inr (), init ''A'')"
proof -
  have a: "event_client (MessageEvent ''B'' msg1)
      \<noteq> handler_client (StreamAllMessagesHandler (cb_ok 1)) (init ''A'')"
    by (simp add: handler_client_def init_def)
  have b: "event_client (ConversationMessageEvent ''other'' msg1 ''g1'')
      \<noteq> handler_client (GroupMessagesHandler ''inst'' ''g1'' (cb_ok 2)) (init ''A'')"
    by (simp add: handler_client_def)
  show ?thesis
    using other_clients_event_is_ignored [OF a] other_clients_event_is_ignored [OF b] a b
    by simp
qed

subsection \<open>C9: field selection\<close>

text \<open>
  C9, as the code has it. Each of \<open>isActive\<close>, \<open>addedByInboxId\<close>, \<open>name\<close>,
  \<open>imageUrlSquare\<close>, \<open>description\<close> and \<open>consentState\<close> is in the encoded map exactly
  when its option is set, with the group's value. \<open>lastMessage\<close> is there exactly when
  its option is set and the group has a message; it is then the first one returned.
\<close>

theorem encodeToObj_field_selection:
  "encodeToObj a grp ps ''isActive'' =
     (if p_isActive ps then Some (JBool (ag_isActive grp)) else None)
   \<and> encodeToObj a grp ps ''addedByInboxId'' =
     (if p_addedByInboxId ps then Some (JString (ag_addedByInboxId grp)) else None)
   \<and> encodeToObj a grp ps ''name'' =
     (if p_name ps then Some (JString (ag_name grp)) else None)
   \<and> encodeToObj a grp ps ''imageUrlSquare'' =
     (if p_imageUrlSquare ps then Some (JString (ag_imageUrlSquare grp)) else None)
   \<and> encodeToObj a grp ps ''description'' =
     (if p_description ps then Some (JString (ag_description grp)) else None)
   \<and> encodeToObj a grp ps ''consentState'' =
     (if p_consentState ps then Some (JString (consentStateToString (ag_consentState grp)))
      else None)
   \<and> encodeToObj a grp ps ''lastMessage'' =
     (if p_lastMessage ps \<and> ag_messages grp \<noteq> [] then Some (JMessage (hd (ag_messages grp)))
      else None)"
  using encode_isActive [of a grp ps] encode_addedByInboxId [of a grp ps]
    encode_name [of a grp ps] encode_imageUrlSquare [of a grp ps]
    encode_description [of a grp ps] encode_consentState [of a grp ps]
    encode_lastMessage [of a grp ps]
  by blast

text \<open>
  C9 as stated fails for \<open>lastMessage\<close>: requested for a group without messages, it is
  not in the encoded map.
\<close>

theorem lastMessage_requested_but_absent_counterexample:
  "p_lastMessage (default_params\<lparr>p_lastMessage := True\<rparr>)
   \<and> ''lastMessage'' \<notin> dom (encodeToObj ''0xabc'' android1 (default_params\<lparr>p_lastMessage := True\<rparr>))"
  by (simp add: encode_lastMessage domIff android1_def default_params_def)

subsection \<open>C10: group messages in the all-messages stream\<close>

text \<open>
  C10. \<open>streamAllMessages\<close> called without \<open>includeGroups\<close> subscribes with
  \<open>includeGroups = false\<close>; called with it, it passes the caller's value on.
\<close>

theorem streamAllMessages_excludes_groups_by_default:
  "trace (streamAllMessages cb None st) =
     trace st @ [GatewayCall (SubscribeToAllMessages (inboxId st) False)]
   \<and> (\<forall>b. trace (streamAllMessages cb (Some b) st) =
       trace st @ [GatewayCall (SubscribeToAllMessages (inboxId st) b)])"
  by (simp add: streamAllMessages_def gateway_def addListener_def)

end
